theory Spec2Isabelle
  imports Complex_Main "HOL-Library.Sublist"
begin

section \<open>The in-memory channel dispatcher\<close>

text \<open>
  The program is one Go file, \<^verbatim>\<open>cmd/in_memory/channel_dispatcher/main.go\<close>, with
  the functions \<^verbatim>\<open>main\<close>, \<^verbatim>\<open>setupLogger\<close> and
  \<^verbatim>\<open>getLoggingConfigOrDie\<close>. It is sequential glue around packages that are not
  part of the file (flag, clientcmd, swappable, the dispatcher, the reconciler, the
  informers, zap). The embedding therefore has two layers:
  \<^item> the functions of main.go, translated statement by statement into functions that
    return the list of calls the main goroutine makes, in order (its trace);
  \<^item> the outcome of every call into another package, which is an input of the
    execution and is read from a record \<open>env\<close>.
  A process exit (\<^verbatim>\<open>log.Fatalf\<close>, \<^verbatim>\<open>logger.Fatalw\<close>) ends the trace.
\<close>

subsection \<open>Values\<close>

text \<open>A Go \<^verbatim>\<open>error\<close> value that is not nil.\<close>

datatype error = Error string

text \<open>
  \<^verbatim>\<open>time.Duration\<close> counts nanoseconds in an int64; the constants are those of
  package time. One minute is far below \<open>2^63\<close>, so no wrap-around is involved.
\<close>

type_synonym Duration = int

definition Nanosecond :: Duration where "Nanosecond = 1"
definition Microsecond :: Duration where "Microsecond = 1000 * Nanosecond"
definition Millisecond :: Duration where "Millisecond = 1000 * Microsecond"
definition Second :: Duration where "Second = 1000 * Millisecond"
definition Minute :: Duration where "Minute = 60 * Second"

text \<open>The package-level variables of main.go, lines 45 to 47.\<close>

definition readTimeout :: Duration where "readTimeout = 1 * Minute"
definition writeTimeout :: Duration where "writeTimeout = 1 * Minute"
definition port :: int where "port = 8080"

text \<open>
  A routing table maps a channel identifier to the subscribers of the channel. A
  \<^verbatim>\<open>map[string]string\<close> of Go is a map from strings to strings.
\<close>

type_synonym channel_id = string
type_synonym subscribers = "string list"
type_synonym RoutingTable = "channel_id \<rightharpoonup> subscribers"
type_synonym string_map = "string \<rightharpoonup> string"

text \<open>
  The logger: the configuration it was built from, the component name, and the
  structured fields added by \<^verbatim>\<open>With\<close>. \<^verbatim>\<open>Desugar\<close> changes the API of a logger, not
  its core, so it is the identity here.
\<close>

datatype logging_Config = LoggingConfig "(string \<times> string) list"

record Logger =
  logger_config :: logging_Config
  logger_name :: string
  logger_fields :: "(string \<times> string) list"

definition Desugar :: "Logger \<Rightarrow> Logger" where
  "Desugar l = l"

definition With :: "Logger \<Rightarrow> string \<Rightarrow> string \<Rightarrow> Logger" where
  "With l k v = l\<lparr>logger_fields := logger_fields l @ [(k, v)]\<rparr>"

text \<open>
  \<^verbatim>\<open>rest.Config\<close>: the fields main.go touches, and the host it was built for.
  \<^verbatim>\<open>QPS\<close> is a float32 in Go. main.go only assigns it the product of two constants,
  which Go evaluates exactly at compile time, so no rounding takes place and the field
  is a real number here.
\<close>

record rest_Config =
  Host :: string
  QPS :: real
  Burst :: int

subsection \<open>The swappable handler (package swappable)\<close>

text \<open>
  Modelled from the spec: package swappable (pkg/provisioners/swappable) is not among
  the sources; only its call in main.go, line 63, is. The spec's SwappableHandle
  owns a reference to the current routing table, \<^verbatim>\<open>get\<close> returns the most recently
  published table and \<^verbatim>\<open>set\<close> replaces it whole. The reference is an
  \<open>option\<close>: \<open>None\<close> is the unset reference that the spec says no constructed
  handler has, and \<open>get\<close> reports it as an error of its own.
\<close>

record Handler =
  current :: "RoutingTable option"

datatype get_error = Unset

text \<open>
  Modelled from the spec: construction (\<^verbatim>\<open>swappable.NewEmptyHandler\<close>) yields a
  handler that holds the table with zero channels. main.go checks the constructor's
  error result, so whether construction fails is an input.
\<close>

definition swappable_NewEmptyHandler :: "error option \<Rightarrow> error + Handler" where
  "swappable_NewEmptyHandler failure =
     (case failure of
        Some err \<Rightarrow> Inl err
      | None \<Rightarrow> Inr \<lparr>current = Some Map.empty\<rparr>)"

text \<open>Modelled from the spec: \<^verbatim>\<open>get() -> RoutingTable\<close> of section 4.1.\<close>

definition get :: "Handler \<Rightarrow> get_error + RoutingTable" where
  "get h = (case current h of None \<Rightarrow> Inl Unset | Some t \<Rightarrow> Inr t)"

text \<open>Modelled from the spec: \<^verbatim>\<open>set(table)\<close> of section 4.1, a whole-table replacement.\<close>

definition set_table :: "RoutingTable \<Rightarrow> Handler \<Rightarrow> Handler" where
  "set_table t h = h\<lparr>current := Some t\<rparr>"

text \<open>The number of channel entries of a table with finitely many channels.\<close>

definition channel_entries :: "RoutingTable \<Rightarrow> nat" where
  "channel_entries t = card (dom t)"

subsection \<open>The dispatcher and the controller (packages inmemorychannel)\<close>

text \<open>\<^verbatim>\<open>dispatcher.InMemoryDispatcherArgs\<close>, as main.go fills it in lines 68 to 74.\<close>

record InMemoryDispatcherArgs =
  Port :: int
  ReadTimeout :: Duration
  WriteTimeout :: Duration
  Handler :: Handler
  Logger :: Logger

text \<open>
  Modelled from the spec: \<^verbatim>\<open>dispatcher.NewDispatcher\<close> (pkg/inmemorychannel) is not
  among the sources. The spec's DispatcherService is bound to the handler and the
  endpoint settings it is constructed with, so a dispatcher is represented by its
  arguments.
\<close>

datatype InMemoryDispatcher = Dispatcher InMemoryDispatcherArgs

definition dispatcher_NewDispatcher :: "InMemoryDispatcherArgs \<Rightarrow> InMemoryDispatcher" where
  "dispatcher_NewDispatcher args = Dispatcher args"

fun dispatcher_args :: "InMemoryDispatcher \<Rightarrow> InMemoryDispatcherArgs" where
  "dispatcher_args (Dispatcher args) = args"

text \<open>
  \<^verbatim>\<open>reconciler.Options\<close> is known by the client configuration it was built from,
  and the informer by its resource.
\<close>

datatype Options = Options rest_Config

datatype Informer = InMemoryChannels

text \<open>
  Modelled from the spec: the reconciliation controller
  (pkg/reconciler/inmemorychannel/dispatcher) is not among the sources; only the
  call of its constructor in main.go, lines 94 to 98, is. Section 4.4 of the spec:
  the controller keeps an accumulation of the known channel definitions, keyed by
  channel identifier; Added and Updated overwrite the key, Deleted removes it; on
  every event it recomputes the full routing table and calls \<^verbatim>\<open>set\<close> on the handler
  it is bound to (the one its dispatcher was constructed with).
\<close>

datatype WatchEvent =
    Added channel_id subscribers
  | Updated channel_id subscribers
  | Deleted channel_id

text \<open>
  Modelled from the spec: the state of the controller, which is the accumulation and
  the handler it publishes to (\<^verbatim>\<open>kncontroller.Impl\<close> itself is not among the sources).
\<close>

record Impl =
  accumulation :: "channel_id \<rightharpoonup> subscribers"
  handler :: Handler

text \<open>
  Modelled from the spec: the constructor \<^verbatim>\<open>inmemorychannel.NewController\<close>, whose
  code is not among the sources, yields a controller that knows no channel yet and is
  bound to the handler of the dispatcher it is given.
\<close>

definition inmemorychannel_NewController ::
    "Options \<Rightarrow> InMemoryDispatcher \<Rightarrow> Informer \<Rightarrow> Impl" where
  "inmemorychannel_NewController opt inMemoryDispatcher informer =
     \<lparr>accumulation = Map.empty, handler = Handler (dispatcher_args inMemoryDispatcher)\<rparr>"

text \<open>
  Modelled from the spec: the effect of a watch event on the accumulation (section
  4.4; the controller's code is not among the sources).
\<close>

fun accumulate :: "WatchEvent \<Rightarrow> (channel_id \<rightharpoonup> subscribers) \<Rightarrow> (channel_id \<rightharpoonup> subscribers)" where
  "accumulate (Added k d) acc = acc(k \<mapsto> d)"
| "accumulate (Updated k d) acc = acc(k \<mapsto> d)"
| "accumulate (Deleted k) acc = acc(k := None)"

text \<open>
  Modelled from the spec: the routing table recomputed from the accumulation (the
  controller's code is not among the sources). The spec does not say how a channel
  definition becomes a delivery configuration; a definition is taken to be the
  subscribers of the channel, so the table has the entries of the accumulation.
\<close>

definition routing_table :: "(channel_id \<rightharpoonup> subscribers) \<Rightarrow> RoutingTable" where
  "routing_table acc = acc"

text \<open>
  Modelled from the spec: the processing of one watch event (section 4.4; the
  controller's code is not among the sources): update the accumulation, recompute the
  table, publish it with \<^verbatim>\<open>set\<close>.
\<close>

definition reconcile :: "WatchEvent \<Rightarrow> Impl \<Rightarrow> Impl" where
  "reconcile ev c =
     (let acc = accumulate ev (accumulation c)
      in c\<lparr>accumulation := acc, handler := set_table (routing_table acc) (handler c)\<rparr>)"

subsection \<open>Traces\<close>

text \<open>
  What the main goroutine does, in order. Each call into another package is an event;
  \<open>StartInformersReturned\<close> is the nil return of \<^verbatim>\<open>kncontroller.StartInformers\<close>, which
  that function gives once every informer it started has synced;
  \<open>GoDispatcherStart\<close> is the statement \<^verbatim>\<open>go inMemoryDispatcher.Start(stopCh)\<close>;
  \<open>TableUpdate\<close> is a routing table published by a running controller and
  \<open>ControllerReturned\<close> the return of a controller from its run loop;
  \<open>Died\<close> is the end of the process inside \<^verbatim>\<open>reconciler.NewOptionsOrDie\<close>, of
  which nothing more is modelled; \<open>LoggerSync\<close> is the deferred \<^verbatim>\<open>logger.Sync()\<close> of
  line 53, which runs when \<^verbatim>\<open>main\<close> returns and does not run when the process ends
  through \<^verbatim>\<open>os.Exit\<close>.
\<close>

datatype event =
    FlagParse
  | ConfigmapLoad string
  | LogFatal string error
  | Exit int
  | SetupSignalHandler
  | BuildConfigFromFlags string string
  | NewEmptyHandler
  | NewDispatcher InMemoryDispatcherArgs
  | LogInfo string
  | NewOptionsOrDie rest_Config
  | Died
  | NewSharedInformerFactory
  | NewController Impl
  | ConfigMapWatcherWatch string
  | SetupDynamicZipkinPublishing string
  | ConfigMapWatcherStart
  | StartInformers "Informer list"
  | StartInformersReturned
  | GoDispatcherStart InMemoryDispatcher
  | StartAll "Impl list"
  | TableUpdate RoutingTable
  | ControllerReturned Impl
  | StartAllReturned
  | DispatcherStop InMemoryDispatcher
  | LoggerSync

text \<open>
  \<^verbatim>\<open>log.Fatalf\<close> of the standard library and \<^verbatim>\<open>Fatal\<close>, \<^verbatim>\<open>Fatalf\<close>, \<^verbatim>\<open>Fatalw\<close> of a
  zap logger write the message and call \<^verbatim>\<open>os.Exit(1)\<close>.
\<close>

definition log_Fatalf :: "string \<Rightarrow> error \<Rightarrow> event list" where
  "log_Fatalf format err = [LogFatal format err, Exit 1]"

definition logger_Fatal :: "string \<Rightarrow> error \<Rightarrow> event list" where
  "logger_Fatal msg err = [LogFatal msg err, Exit 1]"

definition logger_Fatalf :: "string \<Rightarrow> error \<Rightarrow> event list" where
  "logger_Fatalf format err = [LogFatal format err, Exit 1]"

definition logger_Fatalw :: "string \<Rightarrow> error \<Rightarrow> event list" where
  "logger_Fatalw msg err = [LogFatal msg err, Exit 1]"

subsection \<open>The environment of an execution\<close>

text \<open>
  The parsed command line (the three flags of lines 41 to 43; \<^verbatim>\<open>flag.Bool\<close> returns a
  pointer, which line 150 compares with nil, hence the \<open>option\<close>), the constants of the
  packages rest and logconfig, and the result of every call whose result main.go
  inspects. \<open>controller_updates\<close> are the tables the controllers publish while they
  run, and \<open>stop_fires\<close> says whether the stop signal ever fires and the controllers
  return.
\<close>

record env =
  hardcodedLoggingConfig :: "bool option"
  masterURL :: string
  kubeconfig :: string
  rest_DefaultQPS :: real
  rest_DefaultBurst :: int
  logconfig_Controller :: string
  logconfig_ConfigMapName :: string
  configmap_Load :: "string \<Rightarrow> error + string_map"
  logging_NewConfigFromMap :: "string_map \<Rightarrow> error + logging_Config"
  clientcmd_BuildConfigFromFlags :: "string \<Rightarrow> string \<Rightarrow> error + rest_Config"
  NewEmptyHandler_failure :: "error option"
  NewOptionsOrDie_dies :: bool
  tracing_SetupDynamicZipkinPublishing :: "error option"
  ConfigMapWatcher_Start :: "error option"
  kncontroller_StartInformers :: "error option"
  controller_updates :: "RoutingTable list"
  stop_fires :: bool

subsection \<open>getLoggingConfigOrDie and setupLogger\<close>

text \<open>
  The raw string literal of lines 153 to 172: it starts with the line break after the
  opening backquote, every later line is indented with tabs, and the last line has no
  line break.
\<close>

definition raw_lines :: "(nat \<times> string) list \<Rightarrow> string" where
  "raw_lines ls =
     concat (map (\<lambda>(n, l). CHR 0x0A # replicate n (CHR 0x09) @ l) ls)"

definition zap_logger_config :: string where
  \<open>zap_logger_config = raw_lines
     [(4, ''{''),
      (5, ''"level": "info",''),
      (5, ''"development": false,''),
      (5, ''"outputPaths": ["stdout"],''),
      (5, ''"errorOutputPaths": ["stderr"],''),
      (5, ''"encoding": "json",''),
      (5, ''"encoderConfig": {''),
      (5, ''"timeKey": "ts",''),
      (5, ''"levelKey": "level",''),
      (5, ''"nameKey": "logger",''),
      (5, ''"callerKey": "caller",''),
      (5, ''"messageKey": "msg",''),
      (5, ''"stacktraceKey": "stacktrace",''),
      (5, ''"lineEnding": "",''),
      (5, ''"levelEncoder": "",''),
      (5, ''"timeEncoder": "iso8601",''),
      (5, ''"durationEncoder": "",''),
      (5, ''"callerEncoder": ""''),
      (4, ''}'')]\<close>

definition hardcoded_logging_config :: string_map where
  "hardcoded_logging_config =
     [''loglevel.controller'' \<mapsto> ''info'',
      ''zap-logger-config'' \<mapsto> zap_logger_config]"

text \<open>
  A function that can end the process returns the trace of what it did and, when it
  returns at all, its result: \<open>None\<close> is the process that has exited.
\<close>

definition getLoggingConfigOrDie :: "env \<Rightarrow> event list \<times> string_map option" where
  "getLoggingConfigOrDie e =
     (if hardcodedLoggingConfig e \<noteq> None \<and> the (hardcodedLoggingConfig e) then
        ([], Some hardcoded_logging_config)
      else
        (case configmap_Load e ''/etc/config-logging'' of
           Inl err \<Rightarrow>
             (ConfigmapLoad ''/etc/config-logging'' #
                log_Fatalf ''Error loading logging configuration: %v'' err, None)
         | Inr cm \<Rightarrow> ([ConfigmapLoad ''/etc/config-logging''], Some cm)))"

text \<open>
  \<^verbatim>\<open>logging.NewLoggerFromConfig\<close> of knative/pkg returns a logger for a component and
  the level handle of that logger; both are opaque to main.go.
\<close>

datatype AtomicLevel = AtomicLevel

definition logging_NewLoggerFromConfig :: "logging_Config \<Rightarrow> string \<Rightarrow> Logger \<times> AtomicLevel" where
  "logging_NewLoggerFromConfig config name =
     (\<lparr>logger_config = config, logger_name = name, logger_fields = []\<rparr>, AtomicLevel)"

definition setupLogger :: "env \<Rightarrow> event list \<times> (Logger \<times> AtomicLevel) option" where
  "setupLogger e =
     (case getLoggingConfigOrDie e of
        (t, None) \<Rightarrow> (t, None)
      | (t, Some loggingConfigMap) \<Rightarrow>
          (case logging_NewConfigFromMap e loggingConfigMap of
             Inl err \<Rightarrow> (t @ log_Fatalf ''Error parsing logging configuration: %v'' err, None)
           | Inr loggingConfig \<Rightarrow>
               (t, Some (logging_NewLoggerFromConfig loggingConfig (logconfig_Controller e)))))"

subsection \<open>main\<close>

text \<open>
  Modelled from the spec: \<^verbatim>\<open>kncontroller.StartAll\<close> is not among the sources. Section
  4.5 of the spec: the orchestrator blocks in it while the controllers run, and it
  returns once the stop signal has fired and every controller has returned from its
  run loop (a join); section 4.4: a controller publishes tables while it runs and none
  after it has returned. The result says whether the call returns.
\<close>

definition kncontroller_StartAll :: "env \<Rightarrow> Impl list \<Rightarrow> event list \<times> bool" where
  "kncontroller_StartAll e cs =
     (StartAll cs # map TableUpdate (controller_updates e) @
        (if stop_fires e then map ControllerReturned cs @ [StartAllReturned] else []),
      stop_fires e)"

text \<open>
  The body of \<^verbatim>\<open>main\<close>, lines 50 to 137, for a declared controller count \<open>n\<close>
  (\<^verbatim>\<open>numControllers\<close>, line 80) and the constructor calls \<open>ctors\<close> that make up the
  array literal \<^verbatim>\<open>controllers\<close> (lines 93 to 99); the comment of lines 90 to 92 asks
  to keep the two in step when a controller is added. The command line is taken to
  have parsed (the flags are in \<open>e\<close>).
\<close>

type_synonym ctor = "Options \<Rightarrow> InMemoryDispatcher \<Rightarrow> Informer \<Rightarrow> Impl"

definition main_with :: "int \<Rightarrow> ctor list \<Rightarrow> env \<Rightarrow> event list" where
  "main_with n ctors e =
     FlagParse #
     (case setupLogger e of
        (t, None) \<Rightarrow> t
      | (t, Some (logger, atomicLevel)) \<Rightarrow>
          t @ SetupSignalHandler # BuildConfigFromFlags (masterURL e) (kubeconfig e) #
          (case clientcmd_BuildConfigFromFlags e (masterURL e) (kubeconfig e) of
             Inl err \<Rightarrow> logger_Fatalw ''Error building kubeconfig'' err
           | Inr cfg \<Rightarrow>
               NewEmptyHandler #
               (case swappable_NewEmptyHandler (NewEmptyHandler_failure e) of
                  Inl err \<Rightarrow> logger_Fatal ''Error creating swappable.Handler'' err
                | Inr sh \<Rightarrow>
                    (let args = \<lparr>Port = port, ReadTimeout = readTimeout,
                                 WriteTimeout = writeTimeout, Handler = sh,
                                 Logger = Desugar logger\<rparr>;
                         inMemoryDispatcher = dispatcher_NewDispatcher args;
                         logger = With logger ''controller/impl'' ''pkg'';
                         cfg = cfg\<lparr>QPS := of_int n * rest_DefaultQPS e\<rparr>;
                         cfg = cfg\<lparr>Burst := n * rest_DefaultBurst e\<rparr>
                     in NewDispatcher args # LogInfo ''Starting the InMemory dispatcher'' #
                        NewOptionsOrDie cfg #
                        (if NewOptionsOrDie_dies e then [Died]
                         else
                           (let opt = Options cfg;
                                inMemoryChannelInformer = InMemoryChannels;
                                controllers =
                                  map (\<lambda>c. c opt inMemoryDispatcher inMemoryChannelInformer) ctors
                            in NewSharedInformerFactory # map NewController controllers @
                               ConfigMapWatcherWatch (logconfig_ConfigMapName e) #
                               SetupDynamicZipkinPublishing ''imc-dispatcher'' #
                               (case tracing_SetupDynamicZipkinPublishing e of
                                  Some err \<Rightarrow> logger_Fatalw ''Error setting up Zipkin publishing'' err
                                | None \<Rightarrow>
                                    ConfigMapWatcherStart #
                                    (case ConfigMapWatcher_Start e of
                                       Some err \<Rightarrow>
                                         logger_Fatalw ''failed to start configuration manager'' err
                                     | None \<Rightarrow>
                                         LogInfo ''Starting informers.'' #
                                         StartInformers [inMemoryChannelInformer] #
                                         (case kncontroller_StartInformers e of
                                            Some err \<Rightarrow>
                                              logger_Fatalf ''Failed to start informers: %v'' err
                                          | None \<Rightarrow>
                                              StartInformersReturned #
                                              GoDispatcherStart inMemoryDispatcher #
                                              LogInfo ''Starting controllers.'' #
                                              (case kncontroller_StartAll e controllers of
                                                 (t, returned) \<Rightarrow>
                                                   t @ (if returned
                                                        then [DispatcherStop inMemoryDispatcher,
                                                              LoggerSync]
                                                        else [])))))))))))"

text \<open>Line 80 and the array literal of lines 93 to 99.\<close>

definition numControllers :: int where
  "numControllers = 1"

definition controllers :: "ctor list" where
  "controllers = [inmemorychannel_NewController]"

text \<open>
  Line 105 declares a variable of the array type
  \<^verbatim>\<open>[numControllers - len(controllers)][len(controllers) - numControllers]int\<close>. Both
  lengths are constant expressions, and Go accepts an array type only when its length
  is a constant that is not negative; otherwise the package does not compile.
\<close>

definition array_length_ok :: "int \<Rightarrow> bool" where
  "array_length_ok len = (0 \<le> len)"

definition controllers_assertion :: "int \<Rightarrow> ctor list \<Rightarrow> bool" where
  "controllers_assertion n ctors =
     (array_length_ok (n - int (length ctors)) \<and> array_length_ok (int (length ctors) - n))"

text \<open>
  The program for a count and an array literal: \<open>None\<close> when the compiler rejects
  line 105, so that there is no binary and no execution; otherwise the executions of
  the body.
\<close>

definition program :: "int \<Rightarrow> ctor list \<Rightarrow> (env \<Rightarrow> event list) option" where
  "program n ctors =
     (if controllers_assertion n ctors then Some (main_with n ctors) else None)"

definition main :: "env \<Rightarrow> event list" where
  "main = main_with numControllers controllers"

subsection \<open>Notions the properties are stated with\<close>

text \<open>
  The milestones of startup, and the milestone an event stands for. \<open>stages\<close> keeps
  the milestones of a trace, in the order in which they happen.
\<close>

datatype stage =
    HandlerConstructed
  | DispatcherConstructed
  | ControllerConstructed
  | WatcherStarted
  | InformersStarted
  | InitialSyncCompleted
  | DispatcherStarted

fun stage_of :: "event \<Rightarrow> stage option" where
  "stage_of NewEmptyHandler = Some HandlerConstructed"
| "stage_of (NewDispatcher args) = Some DispatcherConstructed"
| "stage_of (NewController c) = Some ControllerConstructed"
| "stage_of ConfigMapWatcherStart = Some WatcherStarted"
| "stage_of (StartInformers informers) = Some InformersStarted"
| "stage_of StartInformersReturned = Some InitialSyncCompleted"
| "stage_of (GoDispatcherStart d) = Some DispatcherStarted"
| "stage_of _ = None"

definition stages :: "event list \<Rightarrow> stage list" where
  "stages t = List.map_filter stage_of t"

definition startup_order :: "stage list" where
  "startup_order =
     [HandlerConstructed, DispatcherConstructed, ControllerConstructed, WatcherStarted,
      InformersStarted, InitialSyncCompleted, DispatcherStarted]"

text \<open>
  A trace ends in a fatal exit caused by a call: the call, the log entry with the
  call's error and \<^verbatim>\<open>os.Exit(1)\<close> are its last three events, the call was made once,
  and the dispatcher was never started.
\<close>

fun is_GoDispatcherStart :: "event \<Rightarrow> bool" where
  "is_GoDispatcherStart (GoDispatcherStart d) = True"
| "is_GoDispatcherStart _ = False"

definition fatal_exit_after :: "event \<Rightarrow> string \<Rightarrow> error \<Rightarrow> event list \<Rightarrow> bool" where
  "fatal_exit_after call msg err t =
     (suffix [call, LogFatal msg err, Exit 1] t \<and>
      length (filter (\<lambda>ev. ev = call) t) = 1 \<and>
      \<not> list_ex is_GoDispatcherStart t)"

subsection \<open>A concrete execution\<close>

text \<open>
  An execution outside a cluster with the hard-coded logging configuration, in which
  every call succeeds, the controller publishes two tables and the stop signal fires.
  The executions that fail are variations of it.
\<close>

definition env_ok :: env where
  "env_ok =
     \<lparr>hardcodedLoggingConfig = Some True,
      masterURL = ''https://10.0.0.1:6443'',
      kubeconfig = ''/root/.kube/config'',
      rest_DefaultQPS = 5,
      rest_DefaultBurst = 10,
      logconfig_Controller = ''controller'',
      logconfig_ConfigMapName = ''config-logging'',
      configmap_Load = (\<lambda>path. Inl (Error ''no such file or directory'')),
      logging_NewConfigFromMap = (\<lambda>m. Inr (LoggingConfig [(''controller'', ''info'')])),
      clientcmd_BuildConfigFromFlags = (\<lambda>m k. Inr \<lparr>Host = m, QPS = 0, Burst = 0\<rparr>),
      NewEmptyHandler_failure = None,
      NewOptionsOrDie_dies = False,
      tracing_SetupDynamicZipkinPublishing = None,
      ConfigMapWatcher_Start = None,
      kncontroller_StartInformers = None,
      controller_updates =
        [[''A'' \<mapsto> [''endpoint1'']], [''A'' \<mapsto> [''endpoint1'', ''endpoint2'']]],
      stop_fires = True\<rparr>"

definition logger_ok :: Logger where
  "logger_ok =
     \<lparr>logger_config = LoggingConfig [(''controller'', ''info'')],
      logger_name = ''controller'', logger_fields = []\<rparr>"

definition args_ok :: InMemoryDispatcherArgs where
  "args_ok =
     \<lparr>Port = 8080, ReadTimeout = 60000000000, WriteTimeout = 60000000000,
      Handler = \<lparr>current = Some Map.empty\<rparr>, Logger = logger_ok\<rparr>"

definition controller_ok :: Impl where
  "controller_ok = \<lparr>accumulation = Map.empty, handler = \<lparr>current = Some Map.empty\<rparr>\<rparr>"

section \<open>The shape of every execution\<close>

text \<open>The logger setup performs no call but the load of the logging configuration.\<close>

lemma setupLogger_events:
  assumes "setupLogger e = (t, r)" and "ev \<in> set t"
  shows "ev = ConfigmapLoad ''/etc/config-logging'' \<or> (\<exists>m err. ev = LogFatal m err) \<or> ev = Exit 1"
  using assms
  by (auto simp: setupLogger_def getLoggingConfigOrDie_def log_Fatalf_def
           split: if_splits sum.splits)

text \<open>
  Every execution of the body takes one of nine courses: it dies in the logger setup,
  at one of the five checked calls or inside \<^verbatim>\<open>NewOptionsOrDie\<close>, it blocks in
  \<^verbatim>\<open>StartAll\<close> for ever, or it runs to the end. Each course fixes the whole trace.
\<close>

lemma main_with_cases [case_names logger_died kubeconfig_failed handler_failed options_died
    zipkin_failed watcher_failed informers_failed running stopped]:
  fixes e :: env and n :: int and ctors :: "ctor list"
  defines "sh \<equiv> \<lparr>current = Some Map.empty\<rparr>"
  obtains
    t where "setupLogger e = (t, None)"
      "main_with n ctors e = FlagParse # t"
  | t lg al err where "setupLogger e = (t, Some (lg, al))"
      "clientcmd_BuildConfigFromFlags e (masterURL e) (kubeconfig e) = Inl err"
      "main_with n ctors e =
         FlagParse # t @
         [SetupSignalHandler, BuildConfigFromFlags (masterURL e) (kubeconfig e),
          LogFatal ''Error building kubeconfig'' err, Exit 1]"
  | t lg al cfg err where "setupLogger e = (t, Some (lg, al))"
      "clientcmd_BuildConfigFromFlags e (masterURL e) (kubeconfig e) = Inr cfg"
      "NewEmptyHandler_failure e = Some err"
      "main_with n ctors e =
         FlagParse # t @
         [SetupSignalHandler, BuildConfigFromFlags (masterURL e) (kubeconfig e),
          NewEmptyHandler, LogFatal ''Error creating swappable.Handler'' err, Exit 1]"
  | t lg al cfg args cfg' where "setupLogger e = (t, Some (lg, al))"
      "clientcmd_BuildConfigFromFlags e (masterURL e) (kubeconfig e) = Inr cfg"
      "NewEmptyHandler_failure e = None"
      "args = \<lparr>Port = port, ReadTimeout = readTimeout, WriteTimeout = writeTimeout,
                Handler = sh, Logger = lg\<rparr>"
      "cfg' = cfg\<lparr>QPS := of_int n * rest_DefaultQPS e, Burst := n * rest_DefaultBurst e\<rparr>"
      "NewOptionsOrDie_dies e"
      "main_with n ctors e =
         FlagParse # t @
         [SetupSignalHandler, BuildConfigFromFlags (masterURL e) (kubeconfig e),
          NewEmptyHandler, NewDispatcher args, LogInfo ''Starting the InMemory dispatcher'',
          NewOptionsOrDie cfg', Died]"
  | t lg al cfg args cfg' cs err where "setupLogger e = (t, Some (lg, al))"
      "clientcmd_BuildConfigFromFlags e (masterURL e) (kubeconfig e) = Inr cfg"
      "NewEmptyHandler_failure e = None"
      "args = \<lparr>Port = port, ReadTimeout = readTimeout, WriteTimeout = writeTimeout,
                Handler = sh, Logger = lg\<rparr>"
      "cfg' = cfg\<lparr>QPS := of_int n * rest_DefaultQPS e, Burst := n * rest_DefaultBurst e\<rparr>"
      "\<not> NewOptionsOrDie_dies e"
      "cs = map (\<lambda>c. c (Options cfg') (Dispatcher args) InMemoryChannels) ctors"
      "tracing_SetupDynamicZipkinPublishing e = Some err"
      "main_with n ctors e =
         FlagParse # t @
         [SetupSignalHandler, BuildConfigFromFlags (masterURL e) (kubeconfig e),
          NewEmptyHandler, NewDispatcher args, LogInfo ''Starting the InMemory dispatcher'',
          NewOptionsOrDie cfg', NewSharedInformerFactory] @ map NewController cs @
         [ConfigMapWatcherWatch (logconfig_ConfigMapName e),
          SetupDynamicZipkinPublishing ''imc-dispatcher'',
          LogFatal ''Error setting up Zipkin publishing'' err, Exit 1]"
  | t lg al cfg args cfg' cs err where "setupLogger e = (t, Some (lg, al))"
      "clientcmd_BuildConfigFromFlags e (masterURL e) (kubeconfig e) = Inr cfg"
      "NewEmptyHandler_failure e = None"
      "args = \<lparr>Port = port, ReadTimeout = readTimeout, WriteTimeout = writeTimeout,
                Handler = sh, Logger = lg\<rparr>"
      "cfg' = cfg\<lparr>QPS := of_int n * rest_DefaultQPS e, Burst := n * rest_DefaultBurst e\<rparr>"
      "\<not> NewOptionsOrDie_dies e"
      "cs = map (\<lambda>c. c (Options cfg') (Dispatcher args) InMemoryChannels) ctors"
      "tracing_SetupDynamicZipkinPublishing e = None"
      "ConfigMapWatcher_Start e = Some err"
      "main_with n ctors e =
         FlagParse # t @
         [SetupSignalHandler, BuildConfigFromFlags (masterURL e) (kubeconfig e),
          NewEmptyHandler, NewDispatcher args, LogInfo ''Starting the InMemory dispatcher'',
          NewOptionsOrDie cfg', NewSharedInformerFactory] @ map NewController cs @
         [ConfigMapWatcherWatch (logconfig_ConfigMapName e),
          SetupDynamicZipkinPublishing ''imc-dispatcher'', ConfigMapWatcherStart,
          LogFatal ''failed to start configuration manager'' err, Exit 1]"
  | t lg al cfg args cfg' cs err where "setupLogger e = (t, Some (lg, al))"
      "clientcmd_BuildConfigFromFlags e (masterURL e) (kubeconfig e) = Inr cfg"
      "NewEmptyHandler_failure e = None"
      "args = \<lparr>Port = port, ReadTimeout = readTimeout, WriteTimeout = writeTimeout,
                Handler = sh, Logger = lg\<rparr>"
      "cfg' = cfg\<lparr>QPS := of_int n * rest_DefaultQPS e, Burst := n * rest_DefaultBurst e\<rparr>"
      "\<not> NewOptionsOrDie_dies e"
      "cs = map (\<lambda>c. c (Options cfg') (Dispatcher args) InMemoryChannels) ctors"
      "tracing_SetupDynamicZipkinPublishing e = None"
      "ConfigMapWatcher_Start e = None"
      "kncontroller_StartInformers e = Some err"
      "main_with n ctors e =
         FlagParse # t @
         [SetupSignalHandler, BuildConfigFromFlags (masterURL e) (kubeconfig e),
          NewEmptyHandler, NewDispatcher args, LogInfo ''Starting the InMemory dispatcher'',
          NewOptionsOrDie cfg', NewSharedInformerFactory] @ map NewController cs @
         [ConfigMapWatcherWatch (logconfig_ConfigMapName e),
          SetupDynamicZipkinPublishing ''imc-dispatcher'', ConfigMapWatcherStart,
          LogInfo ''Starting informers.'', StartInformers [InMemoryChannels],
          LogFatal ''Failed to start informers: %v'' err, Exit 1]"
  | t lg al cfg args cfg' cs where "setupLogger e = (t, Some (lg, al))"
      "clientcmd_BuildConfigFromFlags e (masterURL e) (kubeconfig e) = Inr cfg"
      "NewEmptyHandler_failure e = None"
      "args = \<lparr>Port = port, ReadTimeout = readTimeout, WriteTimeout = writeTimeout,
                Handler = sh, Logger = lg\<rparr>"
      "cfg' = cfg\<lparr>QPS := of_int n * rest_DefaultQPS e, Burst := n * rest_DefaultBurst e\<rparr>"
      "\<not> NewOptionsOrDie_dies e"
      "cs = map (\<lambda>c. c (Options cfg') (Dispatcher args) InMemoryChannels) ctors"
      "tracing_SetupDynamicZipkinPublishing e = None"
      "ConfigMapWatcher_Start e = None"
      "kncontroller_StartInformers e = None"
      "\<not> stop_fires e"
      "main_with n ctors e =
         FlagParse # t @
         [SetupSignalHandler, BuildConfigFromFlags (masterURL e) (kubeconfig e),
          NewEmptyHandler, NewDispatcher args, LogInfo ''Starting the InMemory dispatcher'',
          NewOptionsOrDie cfg', NewSharedInformerFactory] @ map NewController cs @
         [ConfigMapWatcherWatch (logconfig_ConfigMapName e),
          SetupDynamicZipkinPublishing ''imc-dispatcher'', ConfigMapWatcherStart,
          LogInfo ''Starting informers.'', StartInformers [InMemoryChannels],
          StartInformersReturned, GoDispatcherStart (Dispatcher args),
          LogInfo ''Starting controllers.'', StartAll cs] @
         map TableUpdate (controller_updates e)"
  | t lg al cfg args cfg' cs where "setupLogger e = (t, Some (lg, al))"
      "clientcmd_BuildConfigFromFlags e (masterURL e) (kubeconfig e) = Inr cfg"
      "NewEmptyHandler_failure e = None"
      "args = \<lparr>Port = port, ReadTimeout = readTimeout, WriteTimeout = writeTimeout,
                Handler = sh, Logger = lg\<rparr>"
      "cfg' = cfg\<lparr>QPS := of_int n * rest_DefaultQPS e, Burst := n * rest_DefaultBurst e\<rparr>"
      "\<not> NewOptionsOrDie_dies e"
      "cs = map (\<lambda>c. c (Options cfg') (Dispatcher args) InMemoryChannels) ctors"
      "tracing_SetupDynamicZipkinPublishing e = None"
      "ConfigMapWatcher_Start e = None"
      "kncontroller_StartInformers e = None"
      "stop_fires e"
      "main_with n ctors e =
         FlagParse # t @
         [SetupSignalHandler, BuildConfigFromFlags (masterURL e) (kubeconfig e),
          NewEmptyHandler, NewDispatcher args, LogInfo ''Starting the InMemory dispatcher'',
          NewOptionsOrDie cfg', NewSharedInformerFactory] @ map NewController cs @
         [ConfigMapWatcherWatch (logconfig_ConfigMapName e),
          SetupDynamicZipkinPublishing ''imc-dispatcher'', ConfigMapWatcherStart,
          LogInfo ''Starting informers.'', StartInformers [InMemoryChannels],
          StartInformersReturned, GoDispatcherStart (Dispatcher args),
          LogInfo ''Starting controllers.'', StartAll cs] @
         map TableUpdate (controller_updates e) @ map ControllerReturned cs @
         [StartAllReturned, DispatcherStop (Dispatcher args), LoggerSync]"
proof (cases "setupLogger e")
  case (Pair t r)
  note sl = this
  show thesis
  proof (cases r)
    case None
    with sl show thesis using that(1) by (simp add: main_with_def)
  next
    case (Some la)
    obtain lg al where la: "la = (lg, al)" by (cases la)
    note sl' = sl [unfolded Some la]
    show thesis
    proof (cases "clientcmd_BuildConfigFromFlags e (masterURL e) (kubeconfig e)")
      case (Inl err)
      with sl' show thesis using that(2)
        by (simp add: main_with_def logger_Fatalw_def)
    next
      case (Inr cfg)
      note bc = this
      show thesis
      proof (cases "NewEmptyHandler_failure e")
        case (Some err)
        with sl' bc show thesis using that(3)
          by (simp add: main_with_def logger_Fatal_def swappable_NewEmptyHandler_def)
      next
        case None
        note nh = this
        have base: "swappable_NewEmptyHandler (NewEmptyHandler_failure e) = Inr sh"
          by (simp add: nh swappable_NewEmptyHandler_def sh_def)
        show thesis
        proof (cases "NewOptionsOrDie_dies e")
          case True
          with sl' bc nh base show thesis using that(4)
            by (simp add: main_with_def Let_def Desugar_def dispatcher_NewDispatcher_def)
        next
          case False
          note od = this
          show thesis
          proof (cases "tracing_SetupDynamicZipkinPublishing e")
            case (Some err)
            with sl' bc nh base od show thesis using that(5)
              by (simp add: main_with_def Let_def Desugar_def dispatcher_NewDispatcher_def
                    logger_Fatalw_def)
          next
            case None
            note zk = this
            show thesis
            proof (cases "ConfigMapWatcher_Start e")
              case (Some err)
              with sl' bc nh base od zk show thesis using that(6)
                by (simp add: main_with_def Let_def Desugar_def dispatcher_NewDispatcher_def
                      logger_Fatalw_def)
            next
              case None
              note cw = this
              show thesis
              proof (cases "kncontroller_StartInformers e")
                case (Some err)
                with sl' bc nh base od zk cw show thesis using that(7)
                  by (simp add: main_with_def Let_def Desugar_def dispatcher_NewDispatcher_def
                        logger_Fatalf_def)
              next
                case None
                note si = this
                show thesis
                proof (cases "stop_fires e")
                  case False
                  with sl' bc nh base od zk cw si show thesis using that(8)
                    by (simp add: main_with_def Let_def Desugar_def dispatcher_NewDispatcher_def
                          kncontroller_StartAll_def)
                next
                  case True
                  with sl' bc nh base od zk cw si show thesis using that(9)
                    by (simp add: main_with_def Let_def Desugar_def dispatcher_NewDispatcher_def
                          kncontroller_StartAll_def)
                qed
              qed
            qed
          qed
        qed
      qed
    qed
  qed
qed

lemmas main_cases [case_names logger_died kubeconfig_failed handler_failed options_died
    zipkin_failed watcher_failed informers_failed running stopped] =
  main_with_cases [of _ numControllers controllers, folded main_def]

lemma setupLogger_no_call:
  assumes "setupLogger e = (t, r)"
  shows "filter (\<lambda>ev. ev = BuildConfigFromFlags m k) t = []"
    and "filter (\<lambda>ev. ev = NewEmptyHandler) t = []"
    and "filter (\<lambda>ev. ev = SetupDynamicZipkinPublishing s) t = []"
    and "filter (\<lambda>ev. ev = ConfigMapWatcherStart) t = []"
    and "filter (\<lambda>ev. ev = StartInformers informers) t = []"
    and "\<not> list_ex is_GoDispatcherStart t"
  using assms
  by (auto simp: setupLogger_def getLoggingConfigOrDie_def log_Fatalf_def
           split: if_splits sum.splits)

lemma NewEmptyHandler_Inl:
  "swappable_NewEmptyHandler failure = Inl err \<longleftrightarrow> failure = Some err"
  by (simp add: swappable_NewEmptyHandler_def split: option.splits)

lemma durations:
  "readTimeout = 60000000000" "writeTimeout = 60000000000" "port = 8080"
  by (simp_all add: readTimeout_def writeTimeout_def port_def Minute_def Second_def
        Millisecond_def Microsecond_def Nanosecond_def)

subsection \<open>Milestones of a trace\<close>

lemma stages_append: "stages (a @ b) = stages a @ stages b"
  by (simp add: stages_def List.map_filter_def)

lemma stages_Cons:
  "stages (ev # t) = (case stage_of ev of None \<Rightarrow> stages t | Some s \<Rightarrow> s # stages t)"
  by (simp add: stages_def split: option.split)

lemma stages_Nil: "stages [] = []"
  by (simp add: stages_def)

lemma stages_TableUpdate: "stages (map TableUpdate us) = []"
  by (induction us) (simp_all add: stages_Cons stages_Nil)

lemma stages_setupLogger: "setupLogger e = (t, r) \<Longrightarrow> stages t = []"
  by (auto simp: setupLogger_def getLoggingConfigOrDie_def log_Fatalf_def
        stages_Cons stages_Nil stages_append
      split: if_splits sum.splits)

subsection \<open>The concrete execution\<close>

lemma setupLogger_env_ok: "setupLogger env_ok = ([], Some (logger_ok, AtomicLevel))"
  by (simp add: setupLogger_def getLoggingConfigOrDie_def env_ok_def
        logging_NewLoggerFromConfig_def logger_ok_def)

lemma main_env_ok:
  "main env_ok =
     [FlagParse, SetupSignalHandler,
      BuildConfigFromFlags ''https://10.0.0.1:6443'' ''/root/.kube/config'',
      NewEmptyHandler, NewDispatcher args_ok, LogInfo ''Starting the InMemory dispatcher'',
      NewOptionsOrDie \<lparr>Host = ''https://10.0.0.1:6443'', QPS = 5, Burst = 10\<rparr>,
      NewSharedInformerFactory, NewController controller_ok,
      ConfigMapWatcherWatch ''config-logging'', SetupDynamicZipkinPublishing ''imc-dispatcher'',
      ConfigMapWatcherStart, LogInfo ''Starting informers.'', StartInformers [InMemoryChannels],
      StartInformersReturned, GoDispatcherStart (Dispatcher args_ok),
      LogInfo ''Starting controllers.'', StartAll [controller_ok],
      TableUpdate [''A'' \<mapsto> [''endpoint1'']],
      TableUpdate [''A'' \<mapsto> [''endpoint1'', ''endpoint2'']],
      ControllerReturned controller_ok,
      StartAllReturned, DispatcherStop (Dispatcher args_ok), LoggerSync]"
  unfolding main_def main_with_def setupLogger_env_ok
  by (simp add: env_ok_def Let_def swappable_NewEmptyHandler_def Desugar_def
        dispatcher_NewDispatcher_def args_ok_def durations numControllers_def controllers_def
        inmemorychannel_NewController_def kncontroller_StartAll_def controller_ok_def)

subsection \<open>What an execution constructs, and how it ends\<close>

lemma dispatcher_args_of_main:
  assumes "NewDispatcher args \<in> set (main_with n ctors e)"
  shows "Port args = port \<and> ReadTimeout args = readTimeout \<and> WriteTimeout args = writeTimeout
         \<and> Handler args = \<lparr>current = Some Map.empty\<rparr>"
  using assms
  by (cases rule: main_with_cases [of e n ctors])
     (auto dest: setupLogger_events)

lemma options_config_of_main:
  assumes "NewOptionsOrDie cfg \<in> set (main_with n ctors e)"
  shows "QPS cfg = of_int n * rest_DefaultQPS e \<and> Burst cfg = n * rest_DefaultBurst e"
  using assms
  by (cases rule: main_with_cases [of e n ctors])
     (auto dest: setupLogger_events)

lemma first_occurrence_unique:
  assumes "x \<notin> set xs" and "xs @ x # ys = pre @ x # post"
  shows "set post \<subseteq> set ys"
  using assms
proof (induction xs arbitrary: pre)
  case Nil
  then show ?case by (cases pre) auto
next
  case (Cons a xs)
  then show ?case by (cases pre) auto
qed

lemma main_shutdown_shape:
  assumes "StartAllReturned \<in> set (main e) \<or> (\<exists>d. DispatcherStop d \<in> set (main e))"
  shows "\<exists>pre d0. main e = pre @ [StartAllReturned, DispatcherStop d0, LoggerSync] \<and>
           StartAllReturned \<notin> set pre \<and> (\<forall>d'. DispatcherStop d' \<notin> set pre) \<and>
           (\<forall>c. NewController c \<in> set (main e) \<longrightarrow> ControllerReturned c \<in> set pre)"
proof (cases e rule: main_cases)
  case (stopped t lg al cfg args cfg' cs)
  define pre where "pre = FlagParse # t @
         [SetupSignalHandler, BuildConfigFromFlags (masterURL e) (kubeconfig e),
          NewEmptyHandler, NewDispatcher args, LogInfo ''Starting the InMemory dispatcher'',
          NewOptionsOrDie cfg', NewSharedInformerFactory] @ map NewController cs @
         [ConfigMapWatcherWatch (logconfig_ConfigMapName e),
          SetupDynamicZipkinPublishing ''imc-dispatcher'', ConfigMapWatcherStart,
          LogInfo ''Starting informers.'', StartInformers [InMemoryChannels],
          StartInformersReturned, GoDispatcherStart (Dispatcher args),
          LogInfo ''Starting controllers.'', StartAll cs] @
         map TableUpdate (controller_updates e) @ map ControllerReturned cs"
  have m: "main e = pre @ [StartAllReturned, DispatcherStop (Dispatcher args), LoggerSync]"
    by (simp add: stopped(12) pre_def)
  have nr: "StartAllReturned \<notin> set pre" and ns: "\<And>d'. DispatcherStop d' \<notin> set pre"
    using setupLogger_events [OF stopped(1)] by (auto simp: pre_def)
  have cr: "\<And>c. NewController c \<in> set (main e) \<Longrightarrow> ControllerReturned c \<in> set pre"
    using setupLogger_events [OF stopped(1)] by (auto simp: stopped(12) pre_def)
  from m nr ns cr show ?thesis by blast
qed (use assms in \<open>auto dest: setupLogger_events\<close>)

lemma fatal_kubeconfig:
  assumes r: "BuildConfigFromFlags (masterURL e) (kubeconfig e) \<in> set (main e)"
    and f: "clientcmd_BuildConfigFromFlags e (masterURL e) (kubeconfig e) = Inl err"
  shows "fatal_exit_after (BuildConfigFromFlags (masterURL e) (kubeconfig e))
          ''Error building kubeconfig'' err (main e)"
proof (cases e rule: main_cases)
  case (logger_died t)
  with r setupLogger_events [OF logger_died(1)] show ?thesis by auto
next
  case (kubeconfig_failed t lg al err')
  with f show ?thesis
    by (simp add: fatal_exit_after_def setupLogger_no_call suffix_def)
qed (use f in simp_all)

lemma fatal_handler:
  assumes r: "NewEmptyHandler \<in> set (main e)"
    and f: "swappable_NewEmptyHandler (NewEmptyHandler_failure e) = Inl err"
  shows "fatal_exit_after NewEmptyHandler ''Error creating swappable.Handler'' err (main e)"
proof (cases e rule: main_cases)
  case (logger_died t)
  with r setupLogger_events [OF logger_died(1)] show ?thesis by auto
next
  case (kubeconfig_failed t lg al err')
  with r setupLogger_events [OF kubeconfig_failed(1)] show ?thesis by auto
next
  case (handler_failed t lg al cfg err')
  with f show ?thesis
    by (simp add: fatal_exit_after_def setupLogger_no_call suffix_def NewEmptyHandler_Inl)
qed (use f in \<open>simp_all add: NewEmptyHandler_Inl\<close>)

lemma fatal_zipkin:
  assumes r: "SetupDynamicZipkinPublishing ''imc-dispatcher'' \<in> set (main e)"
    and f: "tracing_SetupDynamicZipkinPublishing e = Some err"
  shows "fatal_exit_after (SetupDynamicZipkinPublishing ''imc-dispatcher'')
           ''Error setting up Zipkin publishing'' err (main e)"
proof (cases e rule: main_cases)
  case (logger_died t)
  with r setupLogger_events [OF logger_died(1)] show ?thesis by auto
next
  case (kubeconfig_failed t lg al err')
  with r setupLogger_events [OF kubeconfig_failed(1)] show ?thesis by auto
next
  case (handler_failed t lg al cfg err')
  with r setupLogger_events [OF handler_failed(1)] show ?thesis by auto
next
  case (options_died t lg al cfg args cfg')
  with r setupLogger_events [OF options_died(1)] show ?thesis by auto
next
  case (zipkin_failed t lg al cfg args cfg' cs err')
  with f show ?thesis
    by (simp add: fatal_exit_after_def setupLogger_no_call suffix_def controllers_def
          )
qed (use f in simp_all)

lemma fatal_watcher:
  assumes r: "ConfigMapWatcherStart \<in> set (main e)"
    and f: "ConfigMapWatcher_Start e = Some err"
  shows "fatal_exit_after ConfigMapWatcherStart
           ''failed to start configuration manager'' err (main e)"
proof (cases e rule: main_cases)
  case (logger_died t)
  with r setupLogger_events [OF logger_died(1)] show ?thesis by auto
next
  case (kubeconfig_failed t lg al err')
  with r setupLogger_events [OF kubeconfig_failed(1)] show ?thesis by auto
next
  case (handler_failed t lg al cfg err')
  with r setupLogger_events [OF handler_failed(1)] show ?thesis by auto
next
  case (options_died t lg al cfg args cfg')
  with r setupLogger_events [OF options_died(1)] show ?thesis by auto
next
  case (zipkin_failed t lg al cfg args cfg' cs err')
  with r setupLogger_events [OF zipkin_failed(1)] show ?thesis by auto
next
  case (watcher_failed t lg al cfg args cfg' cs err')
  with f show ?thesis
    by (simp add: fatal_exit_after_def setupLogger_no_call suffix_def controllers_def
          )
qed (use f in simp_all)

lemma fatal_informers:
  assumes r: "StartInformers [InMemoryChannels] \<in> set (main e)"
    and f: "kncontroller_StartInformers e = Some err"
  shows "fatal_exit_after (StartInformers [InMemoryChannels])
           ''Failed to start informers: %v'' err (main e)"
proof (cases e rule: main_cases)
  case (logger_died t)
  with r setupLogger_events [OF logger_died(1)] show ?thesis by auto
next
  case (kubeconfig_failed t lg al err')
  with r setupLogger_events [OF kubeconfig_failed(1)] show ?thesis by auto
next
  case (handler_failed t lg al cfg err')
  with r setupLogger_events [OF handler_failed(1)] show ?thesis by auto
next
  case (options_died t lg al cfg args cfg')
  with r setupLogger_events [OF options_died(1)] show ?thesis by auto
next
  case (zipkin_failed t lg al cfg args cfg' cs err')
  with r setupLogger_events [OF zipkin_failed(1)] show ?thesis by auto
next
  case (watcher_failed t lg al cfg args cfg' cs err')
  with r setupLogger_events [OF watcher_failed(1)] show ?thesis by auto
next
  case (informers_failed t lg al cfg args cfg' cs err')
  with f show ?thesis
    by (simp add: fatal_exit_after_def setupLogger_no_call suffix_def controllers_def
          )
qed (use f in simp_all)


lemma controllers_of_main:
  assumes "NewController c \<in> set (main e)"
  shows "handler c = \<lparr>current = Some Map.empty\<rparr>"
  using assms
  by (cases e rule: main_cases)
     (auto simp: controllers_def inmemorychannel_NewController_def dest: setupLogger_events)

lemmas main_eval =
  main_def main_with_def setupLogger_def getLoggingConfigOrDie_def env_ok_def Let_def
  logging_NewLoggerFromConfig_def swappable_NewEmptyHandler_def Desugar_def
  dispatcher_NewDispatcher_def numControllers_def controllers_def
  inmemorychannel_NewController_def kncontroller_StartAll_def
  log_Fatalf_def logger_Fatal_def logger_Fatalf_def logger_Fatalw_def

section \<open>Properties\<close>

subsection \<open>Selection of the logging configuration\<close>

text \<open>
  Claim C8. \<^verbatim>\<open>getLoggingConfigOrDie\<close> returns the hard-coded map, without touching the
  external source, exactly when the flag \<^verbatim>\<open>hardCodedLoggingConfig\<close> is set and true.
  Otherwise it loads \<^verbatim>\<open>/etc/config-logging\<close>: a successful load is returned as it is,
  a failed load is logged and ends the process with status 1. In \<^verbatim>\<open>setupLogger\<close> a
  configuration that does not parse is logged and ends the process with status 1 as
  well, and \<^verbatim>\<open>main\<close> does nothing after a logger setup that has exited: there is no
  fallback to a default.
\<close>

theorem getLoggingConfigOrDie_selection:
  "(hardcodedLoggingConfig e = Some True \<longrightarrow>
      getLoggingConfigOrDie e = ([], Some hardcoded_logging_config))
   \<and> (fst (getLoggingConfigOrDie e) = [] \<longleftrightarrow> hardcodedLoggingConfig e = Some True)
   \<and> (hardcodedLoggingConfig e \<noteq> Some True \<longrightarrow>
        (\<forall>cm. configmap_Load e ''/etc/config-logging'' = Inr cm \<longrightarrow>
           getLoggingConfigOrDie e = ([ConfigmapLoad ''/etc/config-logging''], Some cm))
      \<and> (\<forall>err. configmap_Load e ''/etc/config-logging'' = Inl err \<longrightarrow>
           getLoggingConfigOrDie e =
             ([ConfigmapLoad ''/etc/config-logging'',
               LogFatal ''Error loading logging configuration: %v'' err, Exit 1], None)))
   \<and> (\<forall>t m err. getLoggingConfigOrDie e = (t, Some m) \<and>
          logging_NewConfigFromMap e m = Inl err \<longrightarrow>
        setupLogger e =
          (t @ [LogFatal ''Error parsing logging configuration: %v'' err, Exit 1], None))
   \<and> (\<forall>t. getLoggingConfigOrDie e = (t, None) \<longrightarrow> setupLogger e = (t, None))
   \<and> (\<forall>t. setupLogger e = (t, None) \<longrightarrow> main e = FlagParse # t)"
proof -
  have sel: "hardcodedLoggingConfig e = Some True \<longrightarrow>
      getLoggingConfigOrDie e = ([], Some hardcoded_logging_config)"
    by (simp add: getLoggingConfigOrDie_def)
  have iff: "fst (getLoggingConfigOrDie e) = [] \<longleftrightarrow> hardcodedLoggingConfig e = Some True"
    by (auto simp: getLoggingConfigOrDie_def split: sum.splits)
  have ext: "hardcodedLoggingConfig e \<noteq> Some True \<longrightarrow>
        (\<forall>cm. configmap_Load e ''/etc/config-logging'' = Inr cm \<longrightarrow>
           getLoggingConfigOrDie e = ([ConfigmapLoad ''/etc/config-logging''], Some cm))
      \<and> (\<forall>err. configmap_Load e ''/etc/config-logging'' = Inl err \<longrightarrow>
           getLoggingConfigOrDie e =
             ([ConfigmapLoad ''/etc/config-logging'',
               LogFatal ''Error loading logging configuration: %v'' err, Exit 1], None))"
    by (auto simp: getLoggingConfigOrDie_def log_Fatalf_def)
  have parse: "\<forall>t m err. getLoggingConfigOrDie e = (t, Some m) \<and>
          logging_NewConfigFromMap e m = Inl err \<longrightarrow>
        setupLogger e =
          (t @ [LogFatal ''Error parsing logging configuration: %v'' err, Exit 1], None)"
    by (simp add: setupLogger_def log_Fatalf_def)
  have died: "\<forall>t. getLoggingConfigOrDie e = (t, None) \<longrightarrow> setupLogger e = (t, None)"
    by (simp add: setupLogger_def)
  have stop: "\<forall>t. setupLogger e = (t, None) \<longrightarrow> main e = FlagParse # t"
    by (simp add: main_def main_with_def)
  from sel iff ext parse died stop show ?thesis by blast
qed

theorem getLoggingConfigOrDie_selection_witness:
  "getLoggingConfigOrDie env_ok = ([], Some hardcoded_logging_config)
   \<and> getLoggingConfigOrDie
        (env_ok\<lparr>hardcodedLoggingConfig := Some False,
                configmap_Load := (\<lambda>path. Inr [''loglevel.controller'' \<mapsto> ''debug''])\<rparr>) =
      ([ConfigmapLoad ''/etc/config-logging''], Some [''loglevel.controller'' \<mapsto> ''debug''])
   \<and> getLoggingConfigOrDie (env_ok\<lparr>hardcodedLoggingConfig := Some False\<rparr>) =
      ([ConfigmapLoad ''/etc/config-logging'',
        LogFatal ''Error loading logging configuration: %v'' (Error ''no such file or directory''),
        Exit 1], None)
   \<and> main (env_ok\<lparr>hardcodedLoggingConfig := Some False\<rparr>) =
      [FlagParse, ConfigmapLoad ''/etc/config-logging'',
       LogFatal ''Error loading logging configuration: %v'' (Error ''no such file or directory''),
       Exit 1]
   \<and> setupLogger
        (env_ok\<lparr>logging_NewConfigFromMap := (\<lambda>m. Inl (Error ''invalid log level''))\<rparr>) =
      ([LogFatal ''Error parsing logging configuration: %v'' (Error ''invalid log level''),
        Exit 1], None)"
proof -
  let ?ext = "env_ok\<lparr>hardcodedLoggingConfig := Some False,
                configmap_Load := (\<lambda>path. Inr [''loglevel.controller'' \<mapsto> ''debug''])\<rparr>"
  let ?nofile = "env_ok\<lparr>hardcodedLoggingConfig := Some False\<rparr>"
  let ?noparse = "env_ok\<lparr>logging_NewConfigFromMap := (\<lambda>m. Inl (Error ''invalid log level''))\<rparr>"
  have a: "getLoggingConfigOrDie env_ok = ([], Some hardcoded_logging_config)"
    using getLoggingConfigOrDie_selection [of env_ok] by (simp add: env_ok_def)
  have b: "getLoggingConfigOrDie ?ext =
      ([ConfigmapLoad ''/etc/config-logging''], Some [''loglevel.controller'' \<mapsto> ''debug''])"
    using getLoggingConfigOrDie_selection [of ?ext] by (simp add: env_ok_def)
  have c: "getLoggingConfigOrDie ?nofile =
      ([ConfigmapLoad ''/etc/config-logging'',
        LogFatal ''Error loading logging configuration: %v'' (Error ''no such file or directory''),
        Exit 1], None)"
    using getLoggingConfigOrDie_selection [of ?nofile] by (simp add: env_ok_def)
  have "setupLogger ?nofile =
      ([ConfigmapLoad ''/etc/config-logging'',
        LogFatal ''Error loading logging configuration: %v'' (Error ''no such file or directory''),
        Exit 1], None)"
    using getLoggingConfigOrDie_selection [of ?nofile] c by blast
  then have d: "main ?nofile =
      [FlagParse, ConfigmapLoad ''/etc/config-logging'',
       LogFatal ''Error loading logging configuration: %v'' (Error ''no such file or directory''),
       Exit 1]"
    using getLoggingConfigOrDie_selection [of ?nofile] by blast
  have "getLoggingConfigOrDie ?noparse = ([], Some hardcoded_logging_config)"
    using getLoggingConfigOrDie_selection [of ?noparse] by (simp add: env_ok_def)
  moreover have "logging_NewConfigFromMap ?noparse hardcoded_logging_config =
      Inl (Error ''invalid log level'')"
    by simp
  ultimately have e: "setupLogger ?noparse =
      ([LogFatal ''Error parsing logging configuration: %v'' (Error ''invalid log level''),
        Exit 1], None)"
    using getLoggingConfigOrDie_selection [of ?noparse] by fastforce
  from a b c d e show ?thesis by blast
qed

subsection \<open>Reconciliation\<close>

text \<open>
  Claim C6. For every Added watch event and every state of the reconciliation
  controller, processing the event twice leaves the controller, and so the routing
  table that the handler returns, as processing it once does.
\<close>

theorem reconcile_Added_idempotent:
  "reconcile (Added k d) (reconcile (Added k d) c) = reconcile (Added k d) c
   \<and> get (handler (reconcile (Added k d) (reconcile (Added k d) c))) =
       get (handler (reconcile (Added k d) c))"
  by (simp add: reconcile_def Let_def set_table_def routing_table_def)

subsection \<open>The controller count\<close>

text \<open>
  Claim C3. A program whose controller array has a length other than the declared
  count \<^verbatim>\<open>numControllers\<close> is rejected by the assertion of line 105, so it has no
  execution and opens no endpoint; a program that is accepted has equal count and
  length in every execution. In this program the count is 1 and the array has one
  element, so the program is accepted and its executions are those of \<^verbatim>\<open>main\<close>.
\<close>

theorem controller_count_assertion:
  "(program n ctors = None \<longleftrightarrow> n \<noteq> int (length ctors))
   \<and> (n = int (length ctors) \<longrightarrow> program n ctors = Some (main_with n ctors))
   \<and> numControllers = 1 \<and> length controllers = 1
   \<and> program numControllers controllers = Some main"
  by (auto simp: program_def controllers_assertion_def array_length_ok_def main_def
        numControllers_def controllers_def)

theorem controller_count_assertion_witness:
  "program 2 controllers = None
   \<and> program 1 [inmemorychannel_NewController] = Some (main_with 1 [inmemorychannel_NewController])"
  using controller_count_assertion [of 2 controllers]
    controller_count_assertion [of 1 "[inmemorychannel_NewController]"]
  by (simp add: controllers_def)

subsection \<open>Startup and shutdown\<close>

text \<open>
  Claim C1. In every execution of \<^verbatim>\<open>main\<close> the milestones of startup happen in one
  order: the swappable handler is constructed, the dispatcher is constructed, the
  controller is constructed, the config-map watcher is started, the informers are
  started, \<^verbatim>\<open>StartInformers\<close> returns without error (the initial sync is complete),
  the dispatcher's \<^verbatim>\<open>Start\<close> is launched. An execution that ends early has an initial
  segment of this order, and one that launches \<^verbatim>\<open>Start\<close> has all of it, so the sync
  is complete before \<^verbatim>\<open>Start\<close> runs. The dispatcher is constructed with the handler
  that the constructor call of this execution returned, and the controller is bound
  to the same handler.
\<close>

theorem main_startup_order:
  "prefix (stages (main e)) startup_order
   \<and> (\<forall>args. NewDispatcher args \<in> set (main e) \<longrightarrow>
        swappable_NewEmptyHandler (NewEmptyHandler_failure e) = Inr (Handler args))
   \<and> (\<forall>c args. NewController c \<in> set (main e) \<and> NewDispatcher args \<in> set (main e) \<longrightarrow>
        handler c = Handler args)
   \<and> (\<forall>d. GoDispatcherStart d \<in> set (main e) \<longrightarrow> stages (main e) = startup_order)"
proof -
  have a: "prefix (stages (main e)) startup_order"
    by (cases e rule: main_cases)
       (simp_all add: stages_append stages_Cons stages_Nil stages_TableUpdate
          stages_setupLogger startup_order_def controllers_def)
  have b: "\<forall>args. NewDispatcher args \<in> set (main e) \<longrightarrow>
        swappable_NewEmptyHandler (NewEmptyHandler_failure e) = Inr (Handler args)"
    by (cases e rule: main_cases)
       (auto simp: swappable_NewEmptyHandler_def dest: setupLogger_events)
  have c: "\<forall>c args. NewController c \<in> set (main e) \<and> NewDispatcher args \<in> set (main e) \<longrightarrow>
        handler c = Handler args"
    using controllers_of_main [of _ e] dispatcher_args_of_main [of _ numControllers controllers e]
    by (simp add: main_def)
  have d: "\<forall>d. GoDispatcherStart d \<in> set (main e) \<longrightarrow> stages (main e) = startup_order"
    by (cases e rule: main_cases)
       (auto simp add: stages_append stages_Cons stages_Nil stages_TableUpdate
          stages_setupLogger startup_order_def controllers_def dest: setupLogger_events)
  from a b c d show ?thesis by blast
qed

theorem main_startup_order_witness:
  "GoDispatcherStart (Dispatcher args_ok) \<in> set (main env_ok)
   \<and> NewDispatcher args_ok \<in> set (main env_ok)
   \<and> NewController controller_ok \<in> set (main env_ok)
   \<and> stages (main env_ok) = startup_order
   \<and> swappable_NewEmptyHandler (NewEmptyHandler_failure env_ok) = Inr (Handler args_ok)
   \<and> handler controller_ok = Handler args_ok"
proof -
  have m: "GoDispatcherStart (Dispatcher args_ok) \<in> set (main env_ok)"
    "NewDispatcher args_ok \<in> set (main env_ok)"
    "NewController controller_ok \<in> set (main env_ok)"
    by (simp_all add: main_env_ok)
  with main_startup_order [of env_ok] show ?thesis by blast
qed

text \<open>
  Claim C2. In every execution of \<^verbatim>\<open>main\<close>, \<^verbatim>\<open>inMemoryDispatcher.Stop()\<close> is called
  once, and the event before it is the return of \<^verbatim>\<open>kncontroller.StartAll\<close>, which
  has not returned before; by then every controller that was constructed has returned
  from its run loop, and only the deferred \<^verbatim>\<open>logger.Sync()\<close> follows the call. No
  routing table is published once \<^verbatim>\<open>StartAll\<close> has returned: every table that a
  controller publishes is published before.
\<close>

theorem main_shutdown_order:
  "(\<forall>d. DispatcherStop d \<in> set (main e) \<longrightarrow>
      (\<exists>pre. main e = pre @ [StartAllReturned, DispatcherStop d, LoggerSync] \<and>
             StartAllReturned \<notin> set pre \<and> (\<forall>d'. DispatcherStop d' \<notin> set pre) \<and>
             (\<forall>c. NewController c \<in> set (main e) \<longrightarrow> ControllerReturned c \<in> set pre)))
   \<and> (\<forall>pre post u. main e = pre @ StartAllReturned # post \<longrightarrow> TableUpdate u \<notin> set post)"
proof (intro conjI allI impI)
  fix d
  assume d: "DispatcherStop d \<in> set (main e)"
  then obtain pre d0 where s: "main e = pre @ [StartAllReturned, DispatcherStop d0, LoggerSync]"
      "StartAllReturned \<notin> set pre" "\<forall>d'. DispatcherStop d' \<notin> set pre"
      "\<forall>c. NewController c \<in> set (main e) \<longrightarrow> ControllerReturned c \<in> set pre"
    using main_shutdown_shape [of e] by blast
  with d have "d = d0" by auto
  with s show "\<exists>pre. main e = pre @ [StartAllReturned, DispatcherStop d, LoggerSync] \<and>
             StartAllReturned \<notin> set pre \<and> (\<forall>d'. DispatcherStop d' \<notin> set pre) \<and>
             (\<forall>c. NewController c \<in> set (main e) \<longrightarrow> ControllerReturned c \<in> set pre)"
    by blast
next
  fix pre' post u
  assume p: "main e = pre' @ StartAllReturned # post"
  then have "StartAllReturned \<in> set (main e)" by simp
  then obtain pre d0 where s: "main e = pre @ [StartAllReturned, DispatcherStop d0, LoggerSync]"
      "StartAllReturned \<notin> set pre"
    using main_shutdown_shape [of e] by blast
  from s(1) p
  have "pre @ StartAllReturned # [DispatcherStop d0, LoggerSync] = pre' @ StartAllReturned # post"
    by simp
  from first_occurrence_unique [OF s(2) this] show "TableUpdate u \<notin> set post" by auto
qed

theorem main_shutdown_order_witness:
  "DispatcherStop (Dispatcher args_ok) \<in> set (main env_ok)
   \<and> NewController controller_ok \<in> set (main env_ok)
   \<and> (\<exists>pre. main env_ok =
            pre @ [StartAllReturned, DispatcherStop (Dispatcher args_ok), LoggerSync] \<and>
          StartAllReturned \<notin> set pre \<and> (\<forall>d'. DispatcherStop d' \<notin> set pre) \<and>
          ControllerReturned controller_ok \<in> set pre)
   \<and> main env_ok =
       take 21 (main env_ok) @
       StartAllReturned # [DispatcherStop (Dispatcher args_ok), LoggerSync]
   \<and> (\<forall>u. TableUpdate u \<notin> set [DispatcherStop (Dispatcher args_ok), LoggerSync])"
proof -
  have r: "DispatcherStop (Dispatcher args_ok) \<in> set (main env_ok)"
    "NewController controller_ok \<in> set (main env_ok)"
    by (simp_all add: main_env_ok)
  have p: "main env_ok =
       take 21 (main env_ok) @
       StartAllReturned # [DispatcherStop (Dispatcher args_ok), LoggerSync]"
    by (simp add: main_env_ok)
  from main_shutdown_order [of env_ok] r p show ?thesis by blast
qed

subsection \<open>Fatal startup conditions\<close>

text \<open>
  Claim C7. When \<^verbatim>\<open>main\<close> makes one of its five checked calls (building the client
  configuration, creating the swappable handler, setting up Zipkin publishing,
  starting the config-map watcher, starting the informers and waiting for their sync)
  and the call returns an error, the execution ends there: the call, a log entry that
  carries the error, and exit status 1 are the last three events, the call was made
  once (no retry), and the dispatcher was never started.
\<close>

theorem main_fatal_startup:
  "(\<forall>err. BuildConfigFromFlags (masterURL e) (kubeconfig e) \<in> set (main e) \<and>
        clientcmd_BuildConfigFromFlags e (masterURL e) (kubeconfig e) = Inl err \<longrightarrow>
      fatal_exit_after (BuildConfigFromFlags (masterURL e) (kubeconfig e))
        ''Error building kubeconfig'' err (main e))
   \<and> (\<forall>err. NewEmptyHandler \<in> set (main e) \<and>
        swappable_NewEmptyHandler (NewEmptyHandler_failure e) = Inl err \<longrightarrow>
      fatal_exit_after NewEmptyHandler ''Error creating swappable.Handler'' err (main e))
   \<and> (\<forall>err. SetupDynamicZipkinPublishing ''imc-dispatcher'' \<in> set (main e) \<and>
        tracing_SetupDynamicZipkinPublishing e = Some err \<longrightarrow>
      fatal_exit_after (SetupDynamicZipkinPublishing ''imc-dispatcher'')
        ''Error setting up Zipkin publishing'' err (main e))
   \<and> (\<forall>err. ConfigMapWatcherStart \<in> set (main e) \<and> ConfigMapWatcher_Start e = Some err \<longrightarrow>
      fatal_exit_after ConfigMapWatcherStart
        ''failed to start configuration manager'' err (main e))
   \<and> (\<forall>err. StartInformers [InMemoryChannels] \<in> set (main e) \<and>
        kncontroller_StartInformers e = Some err \<longrightarrow>
      fatal_exit_after (StartInformers [InMemoryChannels])
        ''Failed to start informers: %v'' err (main e))"
  using fatal_kubeconfig [of e] fatal_handler [of e] fatal_zipkin [of e] fatal_watcher [of e]
    fatal_informers [of e]
  by blast

theorem main_fatal_startup_witness:
  "fatal_exit_after (BuildConfigFromFlags ''https://10.0.0.1:6443'' ''/root/.kube/config'')
      ''Error building kubeconfig'' (Error ''invalid configuration'')
      (main (env_ok\<lparr>clientcmd_BuildConfigFromFlags := (\<lambda>m k. Inl (Error ''invalid configuration''))\<rparr>))
   \<and> fatal_exit_after NewEmptyHandler ''Error creating swappable.Handler'' (Error ''no handler'')
      (main (env_ok\<lparr>NewEmptyHandler_failure := Some (Error ''no handler'')\<rparr>))
   \<and> fatal_exit_after (SetupDynamicZipkinPublishing ''imc-dispatcher'')
      ''Error setting up Zipkin publishing'' (Error ''no tracing config'')
      (main (env_ok\<lparr>tracing_SetupDynamicZipkinPublishing := Some (Error ''no tracing config'')\<rparr>))
   \<and> fatal_exit_after ConfigMapWatcherStart
      ''failed to start configuration manager'' (Error ''watch failed'')
      (main (env_ok\<lparr>ConfigMapWatcher_Start := Some (Error ''watch failed'')\<rparr>))
   \<and> fatal_exit_after (StartInformers [InMemoryChannels])
      ''Failed to start informers: %v'' (Error ''failed to wait for cache at index 0 to sync'')
      (main (env_ok\<lparr>kncontroller_StartInformers :=
               Some (Error ''failed to wait for cache at index 0 to sync'')\<rparr>))"
proof -
  let ?e1 = "env_ok\<lparr>clientcmd_BuildConfigFromFlags := (\<lambda>m k. Inl (Error ''invalid configuration''))\<rparr>"
  let ?e2 = "env_ok\<lparr>NewEmptyHandler_failure := Some (Error ''no handler'')\<rparr>"
  let ?e3 = "env_ok\<lparr>tracing_SetupDynamicZipkinPublishing := Some (Error ''no tracing config'')\<rparr>"
  let ?e4 = "env_ok\<lparr>ConfigMapWatcher_Start := Some (Error ''watch failed'')\<rparr>"
  let ?e5 = "env_ok\<lparr>kncontroller_StartInformers :=
               Some (Error ''failed to wait for cache at index 0 to sync'')\<rparr>"
  have r1: "BuildConfigFromFlags (masterURL ?e1) (kubeconfig ?e1) \<in> set (main ?e1)"
    "clientcmd_BuildConfigFromFlags ?e1 (masterURL ?e1) (kubeconfig ?e1) =
       Inl (Error ''invalid configuration'')"
    by (simp_all add: main_eval)
  have r2: "NewEmptyHandler \<in> set (main ?e2)"
    "swappable_NewEmptyHandler (NewEmptyHandler_failure ?e2) = Inl (Error ''no handler'')"
    by (simp_all add: main_eval)
  have r3: "SetupDynamicZipkinPublishing ''imc-dispatcher'' \<in> set (main ?e3)"
    "tracing_SetupDynamicZipkinPublishing ?e3 = Some (Error ''no tracing config'')"
    by (simp_all add: main_eval)
  have r4: "ConfigMapWatcherStart \<in> set (main ?e4)"
    "ConfigMapWatcher_Start ?e4 = Some (Error ''watch failed'')"
    by (simp_all add: main_eval)
  have r5: "StartInformers [InMemoryChannels] \<in> set (main ?e5)"
    "kncontroller_StartInformers ?e5 = Some (Error ''failed to wait for cache at index 0 to sync'')"
    by (simp_all add: main_eval)
  have m: "masterURL ?e1 = ''https://10.0.0.1:6443''" "kubeconfig ?e1 = ''/root/.kube/config''"
    by (simp_all add: env_ok_def)
  from main_fatal_startup [of ?e1] r1 have c1:
    "fatal_exit_after (BuildConfigFromFlags (masterURL ?e1) (kubeconfig ?e1))
      ''Error building kubeconfig'' (Error ''invalid configuration'') (main ?e1)"
    by blast
  from main_fatal_startup [of ?e2] r2 have c2:
    "fatal_exit_after NewEmptyHandler ''Error creating swappable.Handler'' (Error ''no handler'')
      (main ?e2)"
    by blast
  from main_fatal_startup [of ?e3] r3 have c3:
    "fatal_exit_after (SetupDynamicZipkinPublishing ''imc-dispatcher'')
      ''Error setting up Zipkin publishing'' (Error ''no tracing config'') (main ?e3)"
    by blast
  from main_fatal_startup [of ?e4] r4 have c4:
    "fatal_exit_after ConfigMapWatcherStart
      ''failed to start configuration manager'' (Error ''watch failed'') (main ?e4)"
    by blast
  from main_fatal_startup [of ?e5] r5 have c5:
    "fatal_exit_after (StartInformers [InMemoryChannels])
      ''Failed to start informers: %v'' (Error ''failed to wait for cache at index 0 to sync'')
      (main ?e5)"
    by blast
  from c1 [unfolded m] c2 c3 c4 c5 show ?thesis by blast
qed

subsection \<open>The handler after construction\<close>

text \<open>
  Claim C4. A handler that \<^verbatim>\<open>swappable.NewEmptyHandler\<close> returns answers \<^verbatim>\<open>get\<close>,
  before any \<^verbatim>\<open>set\<close>, with a table (not with the error of an unset reference), and
  the table has zero channel entries. This holds for the handler of every execution
  of \<^verbatim>\<open>main\<close> at the moment the dispatcher is constructed with it.
\<close>

theorem get_after_construction:
  "(\<forall>h. swappable_NewEmptyHandler failure = Inr h \<longrightarrow>
      (\<exists>t. get h = Inr t \<and> channel_entries t = 0 \<and> dom t = {}))
   \<and> (\<forall>args. NewDispatcher args \<in> set (main e) \<longrightarrow>
      (\<exists>t. get (Handler args) = Inr t \<and> channel_entries t = 0 \<and> dom t = {}))"
  using dispatcher_args_of_main [of _ numControllers controllers e]
  by (auto simp: main_def swappable_NewEmptyHandler_def get_def channel_entries_def
           split: option.splits)

theorem get_after_construction_witness:
  "swappable_NewEmptyHandler None = Inr \<lparr>current = Some Map.empty\<rparr>
   \<and> (\<exists>t. get \<lparr>current = Some Map.empty\<rparr> = Inr t \<and> channel_entries t = 0 \<and> dom t = {})
   \<and> NewDispatcher args_ok \<in> set (main env_ok)
   \<and> (\<exists>t. get (Handler args_ok) = Inr t \<and> channel_entries t = 0 \<and> dom t = {})"
proof -
  have c: "swappable_NewEmptyHandler None = Inr \<lparr>current = Some Map.empty\<rparr>"
    by (simp add: swappable_NewEmptyHandler_def)
  have r: "NewDispatcher args_ok \<in> set (main env_ok)"
    by (simp add: main_env_ok)
  from get_after_construction [of None env_ok] c r show ?thesis by blast
qed

subsection \<open>Endpoint values and client rate limits\<close>

text \<open>
  Claim C9, as amended. In every execution of \<^verbatim>\<open>main\<close>, whatever the flags and the
  results of the calls, the dispatcher is constructed with port 8080 and with read
  and write timeouts of one minute (60000000000 ns) each: the three values are fixed
  in main.go and no input of the program changes them.
\<close>

theorem dispatcher_endpoint_values:
  "NewDispatcher args \<in> set (main e) \<Longrightarrow>
     Port args = 8080 \<and> ReadTimeout args = 60000000000 \<and> WriteTimeout args = 60000000000"
  using dispatcher_args_of_main [of args numControllers controllers e]
  by (simp add: main_def durations)

theorem dispatcher_endpoint_values_witness:
  "NewDispatcher args_ok \<in> set (main env_ok)
   \<and> Port args_ok = 8080 \<and> ReadTimeout args_ok = 60000000000
   \<and> WriteTimeout args_ok = 60000000000"
proof -
  have r: "NewDispatcher args_ok \<in> set (main env_ok)"
    by (simp add: main_env_ok)
  from dispatcher_endpoint_values [OF r] r show ?thesis by blast
qed

text \<open>
  Claim C9 as stated says that the three values are configurable, that is, that some
  execution constructs the dispatcher with another port or another timeout. There is
  none.
\<close>

theorem dispatcher_endpoint_configurable_counterexample:
  "\<not> (\<exists>e args. NewDispatcher args \<in> set (main e) \<and>
        (Port args \<noteq> 8080 \<or> ReadTimeout args \<noteq> 1 * Minute \<or> WriteTimeout args \<noteq> 1 * Minute))"
  using dispatcher_args_of_main [of _ numControllers controllers]
  by (auto simp: main_def readTimeout_def writeTimeout_def port_def)

text \<open>
  Claim C10. The client configuration that \<^verbatim>\<open>main\<close> hands to
  \<^verbatim>\<open>reconciler.NewOptionsOrDie\<close> always has QPS equal to the declared controller
  count times \<^verbatim>\<open>rest.DefaultQPS\<close> and Burst equal to the count times
  \<^verbatim>\<open>rest.DefaultBurst\<close>; with the count of this program, 1, they are the defaults
  themselves.
\<close>

theorem client_rate_limits:
  "(\<forall>cfg. NewOptionsOrDie cfg \<in> set (main_with n ctors e) \<longrightarrow>
      QPS cfg = of_int n * rest_DefaultQPS e \<and> Burst cfg = n * rest_DefaultBurst e)
   \<and> (\<forall>cfg. NewOptionsOrDie cfg \<in> set (main e) \<longrightarrow>
      QPS cfg = rest_DefaultQPS e \<and> Burst cfg = rest_DefaultBurst e)"
  using options_config_of_main [of _ numControllers controllers e]
  by (auto simp: options_config_of_main main_def numControllers_def)

theorem client_rate_limits_witness:
  "NewOptionsOrDie \<lparr>Host = ''https://10.0.0.1:6443'', QPS = 5, Burst = 10\<rparr> \<in> set (main env_ok)
   \<and> QPS \<lparr>Host = ''https://10.0.0.1:6443'', QPS = 5, Burst = 10\<rparr> = rest_DefaultQPS env_ok
   \<and> Burst \<lparr>Host = ''https://10.0.0.1:6443'', QPS = 5, Burst = 10\<rparr> = rest_DefaultBurst env_ok"
proof -
  have r: "NewOptionsOrDie \<lparr>Host = ''https://10.0.0.1:6443'', QPS = 5, Burst = 10\<rparr>
      \<in> set (main env_ok)"
    by (simp add: main_env_ok)
  from client_rate_limits [of 1 controllers env_ok] r show ?thesis by blast
qed

end
